theory Spec2Isabelle
  imports Main
begin

section \<open>The conversation and connection layer of App.vue\<close>

text \<open>
  The component keeps its data in reactive cells and mutates them from event handlers
  that run to completion one after the other. The embedding is explicit state passing:
  one record holds every cell, and each handler of the script is a function from the
  record to the updated record.

  Calls into collaborators that the script does not own are kept as data. The identifier
  that \<open>uuidv4()\<close> returns and the identity of a transport handle are arguments supplied
  by the environment; the calls \<open>peer.connect\<close>, \<open>conn.send\<close> and \<open>setTimeout\<close> are
  appended to logs (\<open>dialed\<close>, \<open>sent\<close>, \<open>listening\<close>, \<open>timers\<close>) so that "nothing was transmitted" is a
  statement about the state.

  What the embedding takes from the collaborators: \<open>uuidv4()\<close> returns a string (the
  proofs below never use that two calls return different strings; where a property needs
  the string to be non-empty, as every UUID is, it says so); \<open>peer.connect(x)\<close> returns
  either a handle whose \<open>peer\<close> is \<open>x\<close> or, when the peer object has lost its broker,
  \<open>undefined\<close>; \<open>send\<close> on a handle returns normally. Strings are lists of characters, and
  \<open>substring(0, 6)\<close> is \<open>take 6\<close>.

  The object \<open>connections\<close> is a map of the keys the script has stored in it, but a read
  \<open>connections.value[k]\<close> of a key that was never stored is not always \<open>undefined\<close>: for
  the names every object inherits it yields the inherited value. \<open>getConnection\<close> below
  is that read. Peer identifiers are the broker's: they begin with a letter or a digit, so
  a store under the key \<open>__proto__\<close> does not arise.
\<close>

subsection \<open>Data\<close>

text \<open>The element type of \<open>Conversation.messages\<close>: \<open>{ sender: string; content: string }\<close>.\<close>

record Message =
  sender :: string
  content :: string

text \<open>
  \<open>interface Conversation\<close>. The field \<open>id\<close> is written \<open>conv_id\<close>, since \<open>id\<close> is the
  identity function of HOL.
\<close>

record Conversation =
  conv_id :: string
  title :: string
  peerId :: string
  messages :: "Message list"

text \<open>
  \<open>Peer.DataConnection\<close>: the script reads only \<open>conn.peer\<close>. \<open>connectionId\<close> stands for
  the identity of the handle object, so that two handles to one peer are different values.
\<close>

record DataConnection =
  peer :: string
  connectionId :: string

text \<open>
  The cells of the component. \<open>peerId.value\<close> and \<open>peer.value\<close> are written \<open>peerId_value\<close>
  and \<open>peer_value\<close> (the plain names are fields of \<open>Conversation\<close> and \<open>DataConnection\<close>);
  \<open>peer_value\<close> is \<open>True\<close> once \<open>new Peer()\<close> has been stored, \<open>False\<close> while the cell
  is \<open>null\<close>. \<open>connections\<close> is the object used as a dictionary from peer identifier to
  handle. The last four fields log the calls into the transport and the timer:
  the arguments of \<open>peer.connect\<close>, the calls of \<open>conn.send\<close>, the handles on which a
  \<open>data\<close> listener was registered, and the delays of the pending \<open>setTimeout\<close> calls.
\<close>

record App =
  peerId_value :: string
  remotePeerId :: string
  message :: string
  conversations :: "Conversation list"
  activeConversationId :: "string option"
  peer_value :: bool
  connections :: "string \<rightharpoonup> DataConnection"
  errorMessage :: string
  dialed :: "string list"
  sent :: "(DataConnection \<times> string) list"
  listening :: "DataConnection list"
  timers :: "nat list"

text \<open>The values the cells are created with (lines 14 to 21), before the component is mounted.\<close>

definition init :: App where
  "init = \<lparr> peerId_value = [], remotePeerId = [], message = [], conversations = [],
            activeConversationId = None, peer_value = False, connections = Map.empty,
            errorMessage = [], dialed = [], sent = [], listening = [], timers = [] \<rparr>"

text \<open>
  A handler that throws. The script can raise one exception only: reading a property of
  \<open>null\<close> or \<open>undefined\<close>, or calling something that is not a function.
\<close>

datatype error = TypeError

subsection \<open>Array helpers\<close>

text \<open>\<open>Array.prototype.findIndex\<close>: the first index whose element satisfies the predicate; \<open>None\<close> is \<open>-1\<close>.\<close>

fun findIndex :: "('a \<Rightarrow> bool) \<Rightarrow> 'a list \<Rightarrow> nat option" where
  "findIndex P [] = None"
| "findIndex P (x # xs) = (if P x then Some 0 else map_option Suc (findIndex P xs))"

text \<open>\<open>xs.splice(i, 1)\<close> for an index inside the array.\<close>

definition splice1 :: "nat \<Rightarrow> 'a list \<Rightarrow> 'a list" where
  "splice1 i xs = take i xs @ drop (Suc i) xs"

text \<open>
  \<open>Array.prototype.find\<close> is \<open>find\<close> of HOL. It returns the first matching element
  itself, not a copy, so a mutation of the object it returned changes the element of the
  array at that position: \<open>updateFirst P f\<close> applies \<open>f\<close> there.
\<close>

fun updateFirst :: "('a \<Rightarrow> bool) \<Rightarrow> ('a \<Rightarrow> 'a) \<Rightarrow> 'a list \<Rightarrow> 'a list" where
  "updateFirst P f [] = []"
| "updateFirst P f (x # xs) = (if P x then f x # xs else x # updateFirst P f xs)"

text \<open>\<open>c.messages.push(m)\<close>.\<close>

definition pushMessage :: "Message \<Rightarrow> Conversation \<Rightarrow> Conversation" where
  "pushMessage m c = c\<lparr>messages := messages c @ [m]\<rparr>"

subsection \<open>The handlers\<close>

text \<open>The computed cell \<open>activeConversation\<close> (lines 23 to 25).\<close>

definition activeConversation :: "App \<Rightarrow> Conversation option" where
  "activeConversation s =
     (case activeConversationId s of
        None \<Rightarrow> None
      | Some a \<Rightarrow> find (\<lambda>c. conv_id c = a) (conversations s))"

text \<open>
  \<open>setupConnection(conn)\<close> (lines 49 to 58); \<open>u\<close> is the value of \<open>uuidv4()\<close>. The listener
  it registers on the handle is \<open>onData\<close> below; the registration is logged in \<open>listening\<close>.
\<close>

definition setupConnection :: "App \<Rightarrow> DataConnection \<Rightarrow> string \<Rightarrow> App" where
  "setupConnection s conn u =
     s\<lparr> connections := (connections s)(peer conn \<mapsto> conn),
        conversations := conversations s @
          [\<lparr> conv_id = u, title = ''Chat with '' @ take 6 (peer conn) @ ''...'',
             peerId = peer conn, messages = [] \<rparr>],
        activeConversationId := Some u,
        listening := listening s @ [conn] \<rparr>"

text \<open>The \<open>data\<close> listener of a handle (lines 60 to 65); \<open>conn\<close> is the handle it closes over.\<close>

definition onData :: "App \<Rightarrow> DataConnection \<Rightarrow> string \<Rightarrow> App" where
  "onData s conn d =
     (case find (\<lambda>c. peerId c = peer conn) (conversations s) of
        None \<Rightarrow> s
      | Some conversation \<Rightarrow>
          s\<lparr>conversations :=
              updateFirst (\<lambda>c. peerId c = peer conn)
                (pushMessage \<lparr>sender = ''Remote'', content = d\<rparr>) (conversations s)\<rparr>)"

text \<open>The listeners registered in \<open>onMounted\<close> (lines 27 to 35).\<close>

definition onMounted :: "App \<Rightarrow> App" where
  "onMounted s = s\<lparr>peer_value := True\<rparr>"

definition onOpen :: "App \<Rightarrow> string \<Rightarrow> App" where
  "onOpen s i = s\<lparr>peerId_value := i\<rparr>"

definition onConnection :: "App \<Rightarrow> DataConnection \<Rightarrow> string \<Rightarrow> App" where
  "onConnection s conn u = setupConnection s conn u"

text \<open>
  \<open>connect()\<close> (lines 37 to 47). An empty string is falsy. The call
  \<open>peer.connect(remotePeerId)\<close> is logged in \<open>dialed\<close>. What it returns is the
  environment's: \<open>h = Some i\<close> is a handle with identity \<open>i\<close> whose \<open>peer\<close> is the argument,
  \<open>h = None\<close> is \<open>undefined\<close>. Nothing guards the call \<open>setupConnection(conn)\<close> on line 45,
  and with \<open>undefined\<close> its first statement (line 50) throws on reading \<open>conn.peer\<close>,
  before any cell is written: the result is then the exception together with the state
  at the throw. \<open>setTimeout(f, 3000)\<close> is logged in \<open>timers\<close>; the callback is \<open>onTimeout\<close>.
\<close>

definition connect :: "App \<Rightarrow> string option \<Rightarrow> string \<Rightarrow> (error \<times> App) + App" where
  "connect s h u =
     (if peer_value s \<and> remotePeerId s \<noteq> [] then
        if remotePeerId s = peerId_value s then
          Inr (s\<lparr> errorMessage := ''You can't connect to yourself!'',
                  timers := timers s @ [3000] \<rparr>)
        else
          (case h of
             None \<Rightarrow> Inl (TypeError, s\<lparr>dialed := dialed s @ [remotePeerId s]\<rparr>)
           | Some i \<Rightarrow>
               Inr (setupConnection (s\<lparr>dialed := dialed s @ [remotePeerId s]\<rparr>)
                      \<lparr>peer = remotePeerId s, connectionId = i\<rparr> u))
      else Inr s)"

definition onTimeout :: "App \<Rightarrow> App" where
  "onTimeout s = s\<lparr>errorMessage := []\<rparr>"

text \<open>
  The names that every object inherits from \<open>Object.prototype\<close>. The values found there
  are functions (for \<open>__proto__\<close>, an object): all truthy, none with a \<open>send\<close> method.
\<close>

definition inherited :: "string list" where
  "inherited =
     [''constructor'', ''hasOwnProperty'', ''isPrototypeOf'', ''propertyIsEnumerable'',
      ''toLocaleString'', ''toString'', ''valueOf'', ''__proto__'', ''__defineGetter__'',
      ''__defineSetter__'', ''__lookupGetter__'', ''__lookupSetter__'']"

text \<open>
  The read \<open>connections.value[k]\<close>: the handle stored under \<open>k\<close> if there is one;
  otherwise the inherited value if \<open>k\<close> is an inherited name; otherwise \<open>undefined\<close>.
\<close>

datatype lookup = Undefined | Inherited | Handle DataConnection

definition getConnection :: "(string \<rightharpoonup> DataConnection) \<Rightarrow> string \<Rightarrow> lookup" where
  "getConnection m k =
     (case m k of
        Some conn \<Rightarrow> Handle conn
      | None \<Rightarrow> if k \<in> set inherited then Inherited else Undefined)"

text \<open>
  \<open>sendMessage()\<close> (lines 68 to 75). The condition is evaluated left to right: a \<open>null\<close> or
  empty \<open>activeConversationId\<close> stops it; otherwise \<open>activeConversation.value!.peerId\<close> is
  read, which throws when no conversation has the active id; then the read of
  \<open>connections\<close> and the buffer are tested. Past the condition, an inherited value is not
  a handle: \<open>conn.send\<close> is \<open>undefined\<close> and the call on line 71 throws, before line 72
  writes anything.
\<close>

definition sendMessage :: "App \<Rightarrow> error + App" where
  "sendMessage s =
     (case activeConversationId s of
        None \<Rightarrow> Inr s
      | Some a \<Rightarrow>
          if a = [] then Inr s
          else
            (case activeConversation s of
               None \<Rightarrow> Inl TypeError
             | Some c \<Rightarrow>
                 (case getConnection (connections s) (peerId c) of
                    Undefined \<Rightarrow> Inr s
                  | Inherited \<Rightarrow> if message s \<noteq> [] then Inl TypeError else Inr s
                  | Handle conn \<Rightarrow>
                      if message s \<noteq> [] then
                        Inr (s\<lparr> sent := sent s @ [(conn, message s)],
                                conversations :=
                                  updateFirst (\<lambda>c. conv_id c = a)
                                    (pushMessage \<lparr>sender = ''You'', content = message s\<rparr>)
                                    (conversations s),
                                message := [] \<rparr>)
                      else Inr s)))"

text \<open>\<open>newConversation()\<close> (lines 81 to 84).\<close>

definition newConversation :: "App \<Rightarrow> App" where
  "newConversation s = s\<lparr>remotePeerId := [], activeConversationId := None\<rparr>"

text \<open>\<open>deleteConversation(id)\<close> (lines 86 to 94).\<close>

definition deleteConversation :: "App \<Rightarrow> string \<Rightarrow> App" where
  "deleteConversation s i =
     (case findIndex (\<lambda>c. conv_id c = i) (conversations s) of
        None \<Rightarrow> s
      | Some k \<Rightarrow>
          (let cs = splice1 k (conversations s) in
           if activeConversationId s = Some i then
             s\<lparr> conversations := cs,
                activeConversationId :=
                  (case cs of [] \<Rightarrow> None | c # _ \<Rightarrow> Some (conv_id c)) \<rparr>
           else s\<lparr>conversations := cs\<rparr>))"

text \<open>\<open>renameConversation(id, newTitle)\<close> (lines 96 to 101).\<close>

definition renameConversation :: "App \<Rightarrow> string \<Rightarrow> string \<Rightarrow> App" where
  "renameConversation s i newTitle =
     (case find (\<lambda>c. conv_id c = i) (conversations s) of
        None \<Rightarrow> s
      | Some conversation \<Rightarrow>
          s\<lparr>conversations :=
              updateFirst (\<lambda>c. conv_id c = i) (\<lambda>c. c\<lparr>title := newTitle\<rparr>) (conversations s)\<rparr>)"

subsection \<open>Events\<close>

text \<open>
  Everything that can run a handler. \<open>Mount\<close> is the mounting of the component;
  \<open>PeerOpen\<close> and \<open>Inbound\<close> are the \<open>open\<close> and \<open>connection\<close> events of the peer object;
  \<open>Data\<close> is the \<open>data\<close> event of a handle and \<open>HandleOpen\<close> its \<open>open\<close> event (the
  transport reporting the handle ready); \<open>Timeout\<close> is the firing of the oldest pending
  timer. The others are the user's actions in the template: typing into the inputs
  bound with \<open>v-model\<close> (the connect target, the message buffer, and the title of the
  conversation at a position of the list), the four buttons, leaving the title field,
  and clicking the message area of the conversation at a position of the list.
\<close>

datatype event =
    Mount
  | PeerOpen string
  | Inbound DataConnection string
  | HandleOpen DataConnection
  | Data DataConnection string
  | Timeout
  | InputRemotePeerId string
  | InputMessage string
  | InputTitle nat string
  | Connect "string option" string
  | Send
  | New
  | Delete string
  | Rename string string
  | Activate nat

text \<open>
  One event. The listeners of the peer object exist once \<open>onMounted\<close> has run; the
  \<open>data\<close> listener of a handle exists once \<open>setupConnection\<close> has registered it; no
  listener is ever registered for the \<open>open\<close> event of a handle, so that event changes
  nothing. A handler that throws stops there, and the state is the one at the throw:
  for \<open>sendMessage\<close> the state it was called in. The user's actions are accepted in every state, also where the
  template does not render the control (the connect form is rendered only while no
  conversation is active).
\<close>

fun step :: "App \<Rightarrow> event \<Rightarrow> App" where
  "step s Mount = onMounted s"
| "step s (PeerOpen i) = (if peer_value s then onOpen s i else s)"
| "step s (Inbound conn u) = (if peer_value s then onConnection s conn u else s)"
| "step s (HandleOpen conn) = s"
| "step s (Data conn d) = (if conn \<in> set (listening s) then onData s conn d else s)"
| "step s Timeout =
     (case timers s of [] \<Rightarrow> s | t # ts \<Rightarrow> onTimeout (s\<lparr>timers := ts\<rparr>))"
| "step s (InputRemotePeerId x) = s\<lparr>remotePeerId := x\<rparr>"
| "step s (InputMessage x) = s\<lparr>message := x\<rparr>"
| "step s (InputTitle k x) =
     (if k < length (conversations s)
      then s\<lparr>conversations := (conversations s)[k := (conversations s ! k)\<lparr>title := x\<rparr>]\<rparr>
      else s)"
| "step s (Connect h u) = (case connect s h u of Inl (e, s') \<Rightarrow> s' | Inr s' \<Rightarrow> s')"
| "step s Send = (case sendMessage s of Inl e \<Rightarrow> s | Inr s' \<Rightarrow> s')"
| "step s New = newConversation s"
| "step s (Delete i) = deleteConversation s i"
| "step s (Rename i newTitle) = renameConversation s i newTitle"
| "step s (Activate k) =
     (if k < length (conversations s)
      then s\<lparr>activeConversationId := Some (conv_id (conversations s ! k))\<rparr> else s)"

fun run :: "App \<Rightarrow> event list \<Rightarrow> App" where
  "run s [] = s"
| "run s (e # es) = run (step s e) es"

subsection \<open>The properties as predicates\<close>

text \<open>\<open>activeConversationId\<close> is \<open>null\<close> or the id of a conversation of the list.\<close>

definition valid_active :: "App \<Rightarrow> bool" where
  "valid_active s =
     (case activeConversationId s of
        None \<Rightarrow> True
      | Some a \<Rightarrow> a \<in> set (map conv_id (conversations s)))"

text \<open>No two conversations of the list have the same \<open>peerId\<close>.\<close>

definition unique_peers :: "App \<Rightarrow> bool" where
  "unique_peers s = distinct (map peerId (conversations s))"

text \<open>
  The peer for which an event runs \<open>setupConnection\<close> to its end, if it does: an inbound
  connection once the peer object exists, and \<open>connect()\<close> past its two guards when
  \<open>peer.connect\<close> has returned a handle.
\<close>

fun setup_peer :: "App \<Rightarrow> event \<Rightarrow> string option" where
  "setup_peer s (Inbound conn u) = (if peer_value s then Some (peer conn) else None)"
| "setup_peer s (Connect (Some i) u) =
     (if peer_value s \<and> remotePeerId s \<noteq> [] \<and> remotePeerId s \<noteq> peerId_value s
      then Some (remotePeerId s) else None)"
| "setup_peer s e = None"

text \<open>Whether the transport has reported a handle ready anywhere in a sequence of events.\<close>

fun ready_reported :: "event list \<Rightarrow> bool" where
  "ready_reported [] = False"
| "ready_reported (HandleOpen conn # es) = True"
| "ready_reported (e # es) = ready_reported es"


section \<open>Verification\<close>

subsection \<open>Arrays\<close>

lemma findIndex_None_iff: "findIndex P xs = None \<longleftrightarrow> (\<forall>x\<in>set xs. \<not> P x)"
  by (induction xs) auto

lemma findIndex_SomeD:
  "findIndex P xs = Some k \<Longrightarrow> k < length xs \<and> P (xs ! k) \<and> (\<forall>j<k. \<not> P (xs ! j))"
proof (induction xs arbitrary: k)
  case Nil
  then show ?case by simp
next
  case (Cons x xs)
  show ?case
  proof (cases "P x")
    case True
    with Cons.prems show ?thesis by simp
  next
    case False
    with Cons.prems obtain k' where k': "findIndex P xs = Some k'" "k = Suc k'"
      by auto
    from Cons.IH [OF k'(1)] False k'(2) show ?thesis
      by (auto simp: nth_Cons split: nat.splits)
  qed
qed

lemma findIndex_first:
  "k < length xs \<Longrightarrow> P (xs ! k) \<Longrightarrow> \<forall>j<k. \<not> P (xs ! j) \<Longrightarrow> findIndex P xs = Some k"
proof (induction xs arbitrary: k)
  case Nil
  then show ?case by simp
next
  case (Cons x xs)
  show ?case
  proof (cases k)
    case 0
    with Cons.prems show ?thesis by simp
  next
    case (Suc k')
    with Cons.prems have "\<not> P x" by auto
    moreover from Suc Cons.prems have "findIndex P xs = Some k'"
      by (intro Cons.IH) auto
    ultimately show ?thesis using Suc by simp
  qed
qed

lemma find_findIndex: "find P xs = map_option (\<lambda>k. xs ! k) (findIndex P xs)"
  by (induction xs) (auto simp: option.map_comp comp_def)

lemma updateFirst_findIndex:
  "updateFirst P f xs = (case findIndex P xs of None \<Rightarrow> xs | Some k \<Rightarrow> xs[k := f (xs ! k)])"
  by (induction xs) (auto split: option.splits)

lemma map_updateFirst: "(\<And>x. g (f x) = g x) \<Longrightarrow> map g (updateFirst P f xs) = map g xs"
  by (induction xs) auto

lemma length_updateFirst: "length (updateFirst P f xs) = length xs"
  by (induction xs) auto

lemma set_splice1:
  "k < length xs \<Longrightarrow> set xs = insert (xs ! k) (set (splice1 k xs))"
proof -
  assume k: "k < length xs"
  then have "xs = take k xs @ xs ! k # drop (Suc k) xs"
    by (rule id_take_nth_drop)
  then have "set xs = set (take k xs @ xs ! k # drop (Suc k) xs)"
    by simp
  then show ?thesis
    by (simp add: splice1_def)
qed

subsection \<open>What the handlers leave alone\<close>

lemma conv_id_pushMessage: "conv_id (pushMessage m c) = conv_id c"
  by (simp add: pushMessage_def)

lemma peerId_pushMessage: "peerId (pushMessage m c) = peerId c"
  by (simp add: pushMessage_def)

lemma sendMessage_ids:
  "sendMessage s = Inr s' \<Longrightarrow>
     map conv_id (conversations s') = map conv_id (conversations s) \<and>
     map peerId (conversations s') = map peerId (conversations s) \<and>
     activeConversationId s' = activeConversationId s"
  by (auto simp: sendMessage_def map_updateFirst conv_id_pushMessage peerId_pushMessage
      split: option.splits if_splits lookup.splits)

lemma onData_ids:
  "map conv_id (conversations (onData s conn d)) = map conv_id (conversations s) \<and>
   map peerId (conversations (onData s conn d)) = map peerId (conversations s) \<and>
   activeConversationId (onData s conn d) = activeConversationId s"
  by (auto simp: onData_def map_updateFirst conv_id_pushMessage peerId_pushMessage
      split: option.splits)

lemma rename_ids:
  "map conv_id (conversations (renameConversation s i t)) = map conv_id (conversations s) \<and>
   map peerId (conversations (renameConversation s i t)) = map peerId (conversations s) \<and>
   activeConversationId (renameConversation s i t) = activeConversationId s"
  by (auto simp: renameConversation_def map_updateFirst split: option.splits)

lemma delete_valid_active:
  assumes "valid_active s"
  shows "valid_active (deleteConversation s i)"
proof (cases "findIndex (\<lambda>c. conv_id c = i) (conversations s)")
  case None
  with assms show ?thesis by (simp add: deleteConversation_def)
next
  case (Some k)
  from findIndex_SomeD [OF Some]
  have k: "k < length (conversations s)" and ik: "conv_id (conversations s ! k) = i"
    by auto
  show ?thesis
  proof (cases "activeConversationId s = Some i")
    case True
    with Some show ?thesis
      by (auto simp: deleteConversation_def valid_active_def Let_def split: list.splits)
  next
    case False
    show ?thesis
    proof (cases "activeConversationId s")
      case None
      with Some False show ?thesis
        by (simp add: deleteConversation_def valid_active_def Let_def)
    next
      case (Some a)
      with False have ai: "a \<noteq> i" by simp
      from assms Some have "a \<in> conv_id ` set (conversations s)"
        by (simp add: valid_active_def)
      with set_splice1 [OF k] ik ai
      have "a \<in> conv_id ` set (splice1 k (conversations s))"
        by auto
      with Some False \<open>findIndex _ _ = Some k\<close> show ?thesis
        by (simp add: deleteConversation_def valid_active_def Let_def)
    qed
  qed
qed

lemma title_update_ids:
  "k < length cs \<Longrightarrow>
     map conv_id (cs[k := (cs ! k)\<lparr>title := x\<rparr>]) = map conv_id cs \<and>
     map peerId (cs[k := (cs ! k)\<lparr>title := x\<rparr>]) = map peerId cs"
  by (simp add: map_update list_update_same_conv)

lemma valid_active_cong:
  "map conv_id (conversations s') = map conv_id (conversations s) \<Longrightarrow>
   activeConversationId s' = activeConversationId s \<Longrightarrow> valid_active s' = valid_active s"
  by (simp only: valid_active_def)

lemma step_valid_active: "valid_active s \<Longrightarrow> valid_active (step s e)"
proof (cases e)
  case Send
  assume v: "valid_active s"
  show ?thesis
  proof (cases "sendMessage s")
    case (Inl a)
    with v Send show ?thesis by simp
  next
    case (Inr s')
    from sendMessage_ids [OF Inr] have "valid_active s' = valid_active s"
      by (intro valid_active_cong) simp_all
    with v Inr Send show ?thesis by simp
  qed
next
  case (Data conn d)
  assume "valid_active s"
  moreover from onData_ids [of s conn d]
  have "valid_active (onData s conn d) = valid_active s"
    by (intro valid_active_cong) simp_all
  ultimately show ?thesis using Data by simp
next
  case (Rename i t)
  assume "valid_active s"
  moreover from rename_ids [of s i t]
  have "valid_active (renameConversation s i t) = valid_active s"
    by (intro valid_active_cong) simp_all
  ultimately show ?thesis using Rename by simp
next
  case (Delete i)
  assume "valid_active s"
  with Delete show ?thesis by (simp add: delete_valid_active)
next
  case (InputTitle k x)
  assume v: "valid_active s"
  show ?thesis
  proof (cases "k < length (conversations s)")
    case True
    from title_update_ids [OF True, of x]
    have "valid_active (step s (InputTitle k x)) = valid_active s"
      using True by (intro valid_active_cong) simp_all
    with v InputTitle show ?thesis by simp
  next
    case False
    with v InputTitle show ?thesis by simp
  qed
qed (auto simp: valid_active_def onMounted_def onOpen_def onConnection_def setupConnection_def
      onTimeout_def connect_def newConversation_def split: list.splits option.splits)


lemma run_valid_active: "valid_active s \<Longrightarrow> valid_active (run s es)"
  by (induction es arbitrary: s) (auto simp: step_valid_active)

subsection \<open>The active conversation id\<close>

text \<open>
  C1. Whatever events occur, in any order, starting from the state the component is
  created with, \<open>activeConversationId\<close> is \<open>null\<close> or the id of a conversation that is in
  the list.
\<close>

theorem active_id_valid: "valid_active (run init es)"
  by (rule run_valid_active) (simp add: valid_active_def init_def)



subsection \<open>Uniqueness of peer identifiers\<close>

lemma distinct_splice1: "distinct (map f xs) \<Longrightarrow> distinct (map f (splice1 k xs))"
proof -
  assume d: "distinct (map f xs)"
  let ?ys = "map f xs"
  have "distinct (take k ?ys @ drop k ?ys)" using d by simp
  then have "set (take k ?ys) \<inter> set (drop k ?ys) = {}"
    by (simp only: distinct_append)
  moreover have "set (drop (Suc k) ?ys) \<subseteq> set (drop k ?ys)"
    by (rule set_drop_subset_set_drop) simp
  ultimately have "set (take k ?ys) \<inter> set (drop (Suc k) ?ys) = {}" by blast
  with d have "distinct (take k ?ys @ drop (Suc k) ?ys)"
    by simp
  then show ?thesis by (simp add: splice1_def take_map drop_map)
qed

lemma unique_peers_cong:
  "map peerId (conversations s') = map peerId (conversations s) \<Longrightarrow>
   unique_peers s' = unique_peers s"
  by (simp only: unique_peers_def)

lemma delete_unique_peers: "unique_peers s \<Longrightarrow> unique_peers (deleteConversation s i)"
  by (auto simp: deleteConversation_def unique_peers_def Let_def distinct_splice1
      split: option.splits)

text \<open>
  C2, as amended. \<open>setupConnection\<close> appends a conversation for the connecting peer
  without looking for one that is already open, so the claim that every operation keeps
  peer identifiers unique does not hold. What holds: from a state with unique peer
  identifiers, an event that runs \<open>setupConnection\<close> for peer \<open>p\<close> (an inbound connection,
  or \<open>connect()\<close> past its guards with a handle returned by \<open>peer.connect\<close>) keeps them
  unique exactly when no open conversation has \<open>peerId\<close> \<open>p\<close>, and every other event (a
  \<open>connect()\<close> that is refused or that throws because no handle was returned, send, new
  conversation, delete, rename, title edit, activation, inbound data, timer, transport
  notifications) always keeps them unique.
\<close>

theorem step_unique_peers:
  assumes "unique_peers s"
  shows "unique_peers (step s e) =
           (case setup_peer s e of
              None \<Rightarrow> True
            | Some p \<Rightarrow> p \<notin> set (map peerId (conversations s)))"
proof (cases e)
  case Send
  show ?thesis
  proof (cases "sendMessage s")
    case (Inl a)
    with assms Send show ?thesis by simp
  next
    case (Inr s')
    from sendMessage_ids [OF Inr] have "unique_peers s' = unique_peers s"
      by (intro unique_peers_cong) simp
    with assms Inr Send show ?thesis by simp
  qed
next
  case (Data conn d)
  from onData_ids [of s conn d]
  have "unique_peers (onData s conn d) = unique_peers s"
    by (intro unique_peers_cong) simp
  with assms Data show ?thesis by simp
next
  case (Rename i t)
  from rename_ids [of s i t]
  have "unique_peers (renameConversation s i t) = unique_peers s"
    by (intro unique_peers_cong) simp
  with assms Rename show ?thesis by simp
next
  case (Delete i)
  with assms show ?thesis by (simp add: delete_unique_peers)
next
  case (InputTitle k x)
  show ?thesis
  proof (cases "k < length (conversations s)")
    case True
    from title_update_ids [OF True, of x]
    have "unique_peers (step s (InputTitle k x)) = unique_peers s"
      using True by (intro unique_peers_cong) simp
    with assms InputTitle show ?thesis by simp
  next
    case False
    with assms InputTitle show ?thesis by simp
  qed
next
  case (Inbound conn u)
  with assms show ?thesis
    by (auto simp: unique_peers_def onConnection_def setupConnection_def)
next
  case (Connect h u)
  with assms show ?thesis
    by (cases h) (auto simp: unique_peers_def connect_def setupConnection_def)
qed (use assms in \<open>auto simp: unique_peers_def onMounted_def onOpen_def
      onTimeout_def newConversation_def split: list.splits\<close>)

text \<open>
  With the conversation of \<open>B2\<close> open: an inbound connection from \<open>C3\<close> keeps the peer
  identifiers unique, one from \<open>B2\<close> does not, and a \<open>connect()\<close> to \<open>B2\<close> for which
  \<open>peer.connect\<close> returns no handle throws and keeps them unique.
\<close>

theorem step_unique_peers_witness:
  "unique_peers (run init [Mount, Inbound \<lparr>peer = ''B2'', connectionId = ''h1''\<rparr> ''u1'']) \<and>
   unique_peers
     (step (run init [Mount, Inbound \<lparr>peer = ''B2'', connectionId = ''h1''\<rparr> ''u1''])
        (Inbound \<lparr>peer = ''C3'', connectionId = ''h2''\<rparr> ''u2'')) \<and>
   \<not> unique_peers
     (step (run init [Mount, Inbound \<lparr>peer = ''B2'', connectionId = ''h1''\<rparr> ''u1''])
        (Inbound \<lparr>peer = ''B2'', connectionId = ''h2''\<rparr> ''u2'')) \<and>
   unique_peers
     (step (run init [Mount, Inbound \<lparr>peer = ''B2'', connectionId = ''h1''\<rparr> ''u1'',
                      InputRemotePeerId ''B2''])
        (Connect None ''u2''))"
  using
    step_unique_peers
      [of "run init [Mount, Inbound \<lparr>peer = ''B2'', connectionId = ''h1''\<rparr> ''u1'']"
          "Inbound \<lparr>peer = ''C3'', connectionId = ''h2''\<rparr> ''u2''"]
    step_unique_peers
      [of "run init [Mount, Inbound \<lparr>peer = ''B2'', connectionId = ''h1''\<rparr> ''u1'']"
          "Inbound \<lparr>peer = ''B2'', connectionId = ''h2''\<rparr> ''u2''"]
    step_unique_peers
      [of "run init [Mount, Inbound \<lparr>peer = ''B2'', connectionId = ''h1''\<rparr> ''u1'',
                     InputRemotePeerId ''B2'']"
          "Connect None ''u2''"]
  by (simp add: unique_peers_def init_def onMounted_def onConnection_def setupConnection_def)

text \<open>
  The claim as stated fails: the user connects to \<open>B2\<close>, presses "New Chat", and
  connects to \<open>B2\<close> again. Both calls pass the guards of \<open>connect()\<close> and get a handle,
  and the list then holds two conversations with \<open>peerId\<close> \<open>B2\<close>.
\<close>

theorem duplicate_peer_counterexample:
  "\<not> unique_peers (run init [Mount, PeerOpen ''A1'', InputRemotePeerId ''B2'',
       Connect (Some ''h1'') ''u1'', New, InputRemotePeerId ''B2'', Connect (Some ''h2'') ''u2''])"
  by (simp add: unique_peers_def init_def onMounted_def onOpen_def connect_def
      setupConnection_def newConversation_def)

subsection \<open>Outbound connection\<close>

text \<open>
  C3, as amended. \<open>connect()\<close> calls \<open>setupConnection\<close> on what \<open>peer.connect\<close> returned,
  in the same handler, and no listener is registered for the \<open>open\<close> event of a handle.
  So when the peer object exists and the target is non-empty and differs from the local
  identifier, \<open>connect()\<close> calls \<open>peer.connect\<close>, and then: if a handle came back, the
  handle is registered and the conversation is created and activated at once, inside
  \<open>connect()\<close>, and the later report that the handle is ready changes nothing; if no
  handle came back, \<open>connect()\<close> throws and no conversation is created, then or later.
\<close>

theorem connect_creates_at_once:
  assumes "peer_value s" and "remotePeerId s \<noteq> []" and "remotePeerId s \<noteq> peerId_value s"
  shows "connect s (Some i) u =
           Inr (s\<lparr> dialed := dialed s @ [remotePeerId s],
                   connections :=
                     (connections s)(remotePeerId s \<mapsto> \<lparr>peer = remotePeerId s, connectionId = i\<rparr>),
                   conversations :=
                     conversations s @
                       [\<lparr>conv_id = u, title = ''Chat with '' @ take 6 (remotePeerId s) @ ''...'',
                         peerId = remotePeerId s, messages = []\<rparr>],
                   activeConversationId := Some u,
                   listening := listening s @ [\<lparr>peer = remotePeerId s, connectionId = i\<rparr>] \<rparr>) \<and>
         step (step s (Connect (Some i) u)) (HandleOpen conn) = step s (Connect (Some i) u) \<and>
         connect s None u = Inl (TypeError, s\<lparr>dialed := dialed s @ [remotePeerId s]\<rparr>) \<and>
         step (step s (Connect None u)) (HandleOpen conn) = s\<lparr>dialed := dialed s @ [remotePeerId s]\<rparr>"
  using assms by (simp add: connect_def setupConnection_def)

text \<open>Local id \<open>A1\<close>, target \<open>B2\<close>, once with a handle returned and once without.\<close>

theorem connect_creates_at_once_witness:
  "conversations
     (step (run init [Mount, PeerOpen ''A1'', InputRemotePeerId ''B2'']) (Connect (Some ''h1'') ''u1''))
     = [\<lparr>conv_id = ''u1'', title = ''Chat with B2...'', peerId = ''B2'', messages = []\<rparr>] \<and>
   activeConversationId
     (step (run init [Mount, PeerOpen ''A1'', InputRemotePeerId ''B2'']) (Connect (Some ''h1'') ''u1''))
     = Some ''u1'' \<and>
   conversations
     (step (run init [Mount, PeerOpen ''A1'', InputRemotePeerId ''B2'']) (Connect None ''u1''))
     = []"
  using connect_creates_at_once
    [of "run init [Mount, PeerOpen ''A1'', InputRemotePeerId ''B2'']" "''h1''" "''u1''"]
  by (simp add: init_def onMounted_def onOpen_def)

text \<open>
  The claim as stated fails: with local identifier \<open>A1\<close> and target \<open>B2\<close>, the
  conversation exists and is active as soon as \<open>connect()\<close> has returned, in a run in
  which the transport has not reported any handle ready.
\<close>

theorem connect_before_ready_counterexample:
  "\<not> ready_reported
       [Mount, PeerOpen ''A1'', InputRemotePeerId ''B2'', Connect (Some ''h1'') ''u1''] \<and>
   conversations
     (run init [Mount, PeerOpen ''A1'', InputRemotePeerId ''B2'', Connect (Some ''h1'') ''u1''])
     = [\<lparr>conv_id = ''u1'', title = ''Chat with B2...'', peerId = ''B2'', messages = []\<rparr>] \<and>
   activeConversationId
     (run init [Mount, PeerOpen ''A1'', InputRemotePeerId ''B2'', Connect (Some ''h1'') ''u1''])
     = Some ''u1''"
  by (simp add: init_def onMounted_def onOpen_def connect_def setupConnection_def)

subsection \<open>Sending\<close>













subsection \<open>Inbound data\<close>

text \<open>
  C5. The \<open>data\<close> listener of a handle with peer \<open>P\<close> does one of two things. If no
  conversation has \<open>peerId\<close> \<open>P\<close>, the state is returned as it was: no conversation is
  created and \<open>activeConversationId\<close> is untouched. Otherwise the message
  \<open>{sender: 'Remote', content: text}\<close> is appended to one conversation, the first whose
  \<open>peerId\<close> is \<open>P\<close>, and nothing else in the state changes.
\<close>

theorem inbound_data_routed:
  "((\<forall>c\<in>set (conversations s). peerId c \<noteq> peer conn) \<and> onData s conn d = s) \<or>
   (\<exists>k<length (conversations s).
      peerId (conversations s ! k) = peer conn \<and>
      (\<forall>j<k. peerId (conversations s ! j) \<noteq> peer conn) \<and>
      onData s conn d =
        s\<lparr>conversations := (conversations s)
            [k := (conversations s ! k)
               \<lparr>messages := messages (conversations s ! k) @
                  [\<lparr>sender = ''Remote'', content = d\<rparr>]\<rparr>]\<rparr>)"
proof (cases "findIndex (\<lambda>c. peerId c = peer conn) (conversations s)")
  case None
  then have "\<forall>c\<in>set (conversations s). peerId c \<noteq> peer conn"
    by (simp add: findIndex_None_iff)
  moreover from None have "onData s conn d = s"
    by (simp add: onData_def find_findIndex)
  ultimately show ?thesis by blast
next
  case (Some k)
  from findIndex_SomeD [OF Some]
  have "k < length (conversations s)" "peerId (conversations s ! k) = peer conn"
    "\<forall>j<k. peerId (conversations s ! j) \<noteq> peer conn"
    by auto
  moreover from Some have "onData s conn d =
        s\<lparr>conversations := (conversations s)
            [k := (conversations s ! k)
               \<lparr>messages := messages (conversations s ! k) @
                  [\<lparr>sender = ''Remote'', content = d\<rparr>]\<rparr>]\<rparr>"
    by (simp add: onData_def find_findIndex updateFirst_findIndex pushMessage_def)
  ultimately show ?thesis by blast
qed

text \<open>
  After an inbound connection from \<open>B2\<close>: data on a handle of \<open>C3\<close> leaves the state as
  it was, and data on the handle of \<open>B2\<close> lands in the conversation of \<open>B2\<close>.
\<close>

theorem inbound_data_routed_witness:
  "onData (run init [Mount, Inbound \<lparr>peer = ''B2'', connectionId = ''h1''\<rparr> ''u1''])
     \<lparr>peer = ''C3'', connectionId = ''h2''\<rparr> ''Hi'' =
   run init [Mount, Inbound \<lparr>peer = ''B2'', connectionId = ''h1''\<rparr> ''u1''] \<and>
   conversations
     (onData (run init [Mount, Inbound \<lparr>peer = ''B2'', connectionId = ''h1''\<rparr> ''u1''])
        \<lparr>peer = ''B2'', connectionId = ''h1''\<rparr> ''Hi'') =
     [\<lparr>conv_id = ''u1'', title = ''Chat with B2...'', peerId = ''B2'',
       messages = [\<lparr>sender = ''Remote'', content = ''Hi''\<rparr>]\<rparr>]"
  using
    inbound_data_routed
      [of "run init [Mount, Inbound \<lparr>peer = ''B2'', connectionId = ''h1''\<rparr> ''u1'']"
          "\<lparr>peer = ''C3'', connectionId = ''h2''\<rparr>" "''Hi''"]
    inbound_data_routed
      [of "run init [Mount, Inbound \<lparr>peer = ''B2'', connectionId = ''h1''\<rparr> ''u1'']"
          "\<lparr>peer = ''B2'', connectionId = ''h1''\<rparr>" "''Hi''"]
  by (simp add: init_def onMounted_def onConnection_def setupConnection_def)

subsection \<open>Deleting\<close>

text \<open>
  C6. When the conversation with id \<open>i\<close> exists (\<open>k\<close> is the position of the first
  conversation with that id) and is the active one, \<open>deleteConversation\<close> removes the
  element at \<open>k\<close> and nothing else from the list, and \<open>activeConversationId\<close> becomes
  \<open>null\<close> if that was the only conversation, and otherwise the id of the first
  conversation that remains: the old second one if the first was deleted, the old first
  one if not. Nothing else in the state changes.
\<close>

theorem delete_active:
  assumes "activeConversationId s = Some i"
    and "k < length (conversations s)" and "conv_id (conversations s ! k) = i"
    and "\<forall>j<k. conv_id (conversations s ! j) \<noteq> i"
  shows "deleteConversation s i =
           s\<lparr> conversations := take k (conversations s) @ drop (Suc k) (conversations s),
              activeConversationId :=
                (if length (conversations s) = 1 then None
                 else if k = 0 then Some (conv_id (conversations s ! 1))
                 else Some (conv_id (conversations s ! 0))) \<rparr>"
proof -
  have fi: "findIndex (\<lambda>c. conv_id c = i) (conversations s) = Some k"
    using assms(2,3,4) by (intro findIndex_first) auto
  let ?cs = "conversations s"
  have first_left: "(case splice1 k ?cs of [] \<Rightarrow> None | c # _ \<Rightarrow> Some (conv_id c)) =
        (if length ?cs = 1 then None
         else if k = 0 then Some (conv_id (?cs ! 1)) else Some (conv_id (?cs ! 0)))"
  proof (cases ?cs)
    case Nil
    with assms(2) show ?thesis by simp
  next
    case (Cons c cs')
    show ?thesis
    proof (cases k)
      case 0
      with Cons show ?thesis
        by (cases cs') (simp_all add: splice1_def)
    next
      case (Suc k')
      with Cons assms(2) show ?thesis
        by (auto simp: splice1_def)
    qed
  qed
  show ?thesis
    using fi assms(1) first_left by (simp add: deleteConversation_def Let_def splice1_def)
qed

text \<open>
  Two inbound connections, so that the second conversation is active; deleting it
  activates the first. Deleting that one too leaves no conversation and no active id.
\<close>

theorem delete_active_witness:
  "conversations
     (deleteConversation
        (run init [Mount, Inbound \<lparr>peer = ''B2'', connectionId = ''h1''\<rparr> ''u1'',
                   Inbound \<lparr>peer = ''C3'', connectionId = ''h2''\<rparr> ''u2'']) ''u2'') =
     [\<lparr>conv_id = ''u1'', title = ''Chat with B2...'', peerId = ''B2'', messages = []\<rparr>] \<and>
   activeConversationId
     (deleteConversation
        (run init [Mount, Inbound \<lparr>peer = ''B2'', connectionId = ''h1''\<rparr> ''u1'',
                   Inbound \<lparr>peer = ''C3'', connectionId = ''h2''\<rparr> ''u2'']) ''u2'') =
     Some ''u1'' \<and>
   activeConversationId
     (deleteConversation
        (run init [Mount, Inbound \<lparr>peer = ''B2'', connectionId = ''h1''\<rparr> ''u1'']) ''u1'') =
     None"
  using
    delete_active
      [of "run init [Mount, Inbound \<lparr>peer = ''B2'', connectionId = ''h1''\<rparr> ''u1'',
                     Inbound \<lparr>peer = ''C3'', connectionId = ''h2''\<rparr> ''u2'']" "''u2''" 1]
    delete_active
      [of "run init [Mount, Inbound \<lparr>peer = ''B2'', connectionId = ''h1''\<rparr> ''u1'']" "''u1''" 0]
  by (simp add: init_def onMounted_def onConnection_def setupConnection_def)

text \<open>
  C10. \<open>deleteConversation\<close> does not touch the connection registry, in any state and
  for any id: every handle registered before is registered after, under the same key,
  also the one of the deleted conversation. It calls nothing on a handle either: the
  logs of the transport calls are as before.
\<close>

theorem delete_keeps_connections:
  "connections (deleteConversation s i) = connections s \<and>
   listening (deleteConversation s i) = listening s \<and>
   sent (deleteConversation s i) = sent s \<and>
   dialed (deleteConversation s i) = dialed s"
  by (simp add: deleteConversation_def Let_def split: option.splits)

subsection \<open>Self-connection\<close>

text \<open>
  C8. A connect action with an entered identifier equal to the local one: the connect
  form exists only once the component is mounted, so the peer object exists, and an
  entered identifier is not empty. Then \<open>connect()\<close> returns normally, whatever the
  transport would do, having set the error message and a timer of 3000 ms whose callback
  clears the message, and having changed nothing else: \<open>peer.connect\<close> is not called, no
  handle is registered, and the list of conversations and \<open>activeConversationId\<close> are as
  before.
\<close>

theorem self_connect_rejected:
  assumes "peer_value s" and "remotePeerId s \<noteq> []" and "remotePeerId s = peerId_value s"
  shows "connect s h u =
           Inr (s\<lparr> errorMessage := ''You can't connect to yourself!'',
                   timers := timers s @ [3000] \<rparr>) \<and>
         errorMessage (step s (Connect h u)) \<noteq> [] \<and>
         dialed (step s (Connect h u)) = dialed s \<and>
         connections (step s (Connect h u)) = connections s \<and>
         listening (step s (Connect h u)) = listening s \<and>
         conversations (step s (Connect h u)) = conversations s \<and>
         activeConversationId (step s (Connect h u)) = activeConversationId s \<and>
         timers (step s (Connect h u)) = timers s @ [3000] \<and>
         errorMessage (onTimeout (step s (Connect h u))) = []"
  using assms by (simp add: connect_def onTimeout_def)

text \<open>Local id \<open>A1\<close>, entered \<open>A1\<close>; then the timer fires.\<close>

theorem self_connect_rejected_witness:
  "errorMessage
     (run init [Mount, PeerOpen ''A1'', InputRemotePeerId ''A1'', Connect (Some ''h1'') ''u1'']) =
     ''You can't connect to yourself!'' \<and>
   timers
     (run init [Mount, PeerOpen ''A1'', InputRemotePeerId ''A1'', Connect (Some ''h1'') ''u1'']) =
     [3000] \<and>
   conversations
     (run init [Mount, PeerOpen ''A1'', InputRemotePeerId ''A1'', Connect (Some ''h1'') ''u1'']) =
     [] \<and>
   dialed
     (run init [Mount, PeerOpen ''A1'', InputRemotePeerId ''A1'', Connect (Some ''h1'') ''u1'']) =
     [] \<and>
   errorMessage
     (run init [Mount, PeerOpen ''A1'', InputRemotePeerId ''A1'', Connect (Some ''h1'') ''u1'',
                Timeout]) = []"
  using self_connect_rejected
    [of "run init [Mount, PeerOpen ''A1'', InputRemotePeerId ''A1'']" "Some ''h1''" "''u1''"]
  by (simp add: init_def onMounted_def onOpen_def onTimeout_def)

subsection \<open>Inbound connection\<close>

text \<open>
  C9. The \<open>connection\<close> listener, given a handle of peer \<open>P\<close>, appends exactly one
  conversation to the list, with \<open>peerId\<close> \<open>P\<close>, no messages, and the title \<open>Chat with\<close>,
  a space, the first 6 characters of \<open>P\<close> and three dots, and sets
  \<open>activeConversationId\<close> to its id in the same step; the conversation that
  \<open>activeConversation\<close> then denotes is the new one, its id being new. Once the component
  is mounted this listener is what an inbound connection runs.
\<close>

theorem inbound_connection_creates:
  "conversations (onConnection s conn u) =
     conversations s @
       [\<lparr>conv_id = u, title = ''Chat with '' @ take 6 (peer conn) @ ''...'',
         peerId = peer conn, messages = []\<rparr>] \<and>
   activeConversationId (onConnection s conn u) = Some u \<and>
   (u \<notin> set (map conv_id (conversations s)) \<longrightarrow>
      activeConversation (onConnection s conn u) =
        Some \<lparr>conv_id = u, title = ''Chat with '' @ take 6 (peer conn) @ ''...'',
              peerId = peer conn, messages = []\<rparr>) \<and>
   (peer_value s \<longrightarrow> step s (Inbound conn u) = onConnection s conn u)"
proof -
  have "u \<notin> set (map conv_id cs) \<Longrightarrow> find (\<lambda>c. conv_id c = u) (cs @ [x]) =
      (if conv_id x = u then Some x else None)" for cs and x :: Conversation
    by (induction cs) auto
  then show ?thesis
    by (simp add: onConnection_def setupConnection_def activeConversation_def)
qed

text \<open>A peer whose identifier is longer than 6 characters, arriving while a conversation is open.\<close>

theorem inbound_connection_creates_witness:
  "activeConversation
     (step (run init [Mount, Inbound \<lparr>peer = ''B2'', connectionId = ''h1''\<rparr> ''u1''])
        (Inbound \<lparr>peer = ''remote-peer'', connectionId = ''h2''\<rparr> ''u2'')) =
   Some \<lparr>conv_id = ''u2'', title = ''Chat with remote...'', peerId = ''remote-peer'',
         messages = []\<rparr>"
  using inbound_connection_creates
    [of "run init [Mount, Inbound \<lparr>peer = ''B2'', connectionId = ''h1''\<rparr> ''u1'']"
        "\<lparr>peer = ''remote-peer'', connectionId = ''h2''\<rparr>" "''u2''"]
  by (simp add: init_def onMounted_def setupConnection_def onConnection_def)


end
